theory Spec2Isabelle
  imports Complex_Main
begin

section \<open>Text primitives of the interpreter\<close>

text \<open>
  The interpreter of \<^verbatim>\<open>Forth_resolution.py\<close> works on Python \<^verbatim>\<open>str\<close> values. A
  character of the model is one code point in the range 0..255; on that range the
  string methods the source calls behave as written below.
\<close>

definition isspace :: "char \<Rightarrow> bool" where
  \<comment> \<open>the code points that \<^verbatim>\<open>str.split()\<close> and \<^verbatim>\<open>str.strip()\<close> treat as white space\<close>
  "isspace c = (of_char c \<in> {9::nat, 10, 11, 12, 13, 28, 29, 30, 31, 32, 133, 160})"

definition isdecimal_char :: "char \<Rightarrow> bool" where
  \<comment> \<open>the decimal digits \<^verbatim>\<open>0\<close>..\<^verbatim>\<open>9\<close>, the only digits \<^verbatim>\<open>int()\<close> accepts below 256\<close>
  "isdecimal_char c = (48 \<le> (of_char c :: nat) \<and> (of_char c :: nat) \<le> 57)"

definition isdigit_char :: "char \<Rightarrow> bool" where
  \<comment> \<open>\<^verbatim>\<open>str.isdigit\<close> also accepts the superscript digits U+00B2, U+00B3 and U+00B9\<close>
  "isdigit_char c = (isdecimal_char c \<or> of_char c \<in> {178::nat, 179, 185})"

definition isdigit :: "string \<Rightarrow> bool" where
  \<comment> \<open>\<^verbatim>\<open>word.isdigit()\<close>: at least one character, and every character a digit\<close>
  "isdigit w = (w \<noteq> [] \<and> list_all isdigit_char w)"

definition lower_char :: "char \<Rightarrow> char" where
  "lower_char c = (let n = (of_char c :: nat) in
     if (65 \<le> n \<and> n \<le> 90) \<or> (192 \<le> n \<and> n \<le> 222 \<and> n \<noteq> 215)
     then char_of (n + 32) else c)"

definition lower :: "string \<Rightarrow> string" where
  "lower w = map lower_char w"

definition strip :: "string \<Rightarrow> string" where
  "strip w = rev (dropWhile isspace (rev (dropWhile isspace w)))"

definition startswith_colon :: "string \<Rightarrow> bool" where
  \<comment> \<open>\<^verbatim>\<open>item.startswith(":")\<close>\<close>
  "startswith_colon w = (case w of [] \<Rightarrow> False | c # _ \<Rightarrow> c = CHR '':'')"

fun split_sep_from :: "char \<Rightarrow> string \<Rightarrow> string \<Rightarrow> string list" where
  \<comment> \<open>the second argument is the segment read so far\<close>
  "split_sep_from sep cur [] = [cur]"
| "split_sep_from sep cur (c # cs) =
     (if c = sep then cur # split_sep_from sep [] cs else split_sep_from sep (cur @ [c]) cs)"

definition split_sep :: "char \<Rightarrow> string \<Rightarrow> string list" where
  \<comment> \<open>\<^verbatim>\<open>text.split(sep)\<close> for a one-character separator: never an empty list\<close>
  "split_sep sep w = split_sep_from sep [] w"

definition split_maxsplit1 :: "char \<Rightarrow> string \<Rightarrow> string list" where
  \<comment> \<open>\<^verbatim>\<open>text.split(sep, 1)\<close>: cut at the first separator only\<close>
  "split_maxsplit1 sep w =
     (if sep \<in> set w
      then [takeWhile (\<lambda>c. c \<noteq> sep) w, tl (dropWhile (\<lambda>c. c \<noteq> sep) w)]
      else [w])"

fun split_ws_from :: "string \<Rightarrow> string \<Rightarrow> string list" where
  \<comment> \<open>the first argument is the token read so far\<close>
  "split_ws_from cur [] = (if cur = [] then [] else [cur])"
| "split_ws_from cur (c # cs) =
     (if isspace c then (if cur = [] then split_ws_from [] cs else cur # split_ws_from [] cs)
      else split_ws_from (cur @ [c]) cs)"

definition split_ws :: "string \<Rightarrow> string list" where
  \<comment> \<open>\<^verbatim>\<open>text.split()\<close>: the maximal runs of characters that are not white space\<close>
  "split_ws w = split_ws_from [] w"

definition digit_value :: "char \<Rightarrow> int" where
  "digit_value c = int (of_char c) - 48"

section \<open>Failures\<close>

datatype error =
    StackUnderflowError
  | ZeroDivisionError
  | UndefinedOperation  \<comment> \<open>\<^verbatim>\<open>ValueError("Undefined operation")\<close> of \<^verbatim>\<open>select_operations\<close>\<close>
  | UnpackError         \<comment> \<open>the \<^verbatim>\<open>ValueError\<close> of \<^verbatim>\<open>word_name, definition = ...\<close> on a one-element list\<close>
  | InvalidLiteral      \<comment> \<open>the \<^verbatim>\<open>ValueError\<close> of \<^verbatim>\<open>int(word)\<close>\<close>
  | KeyError

definition int_of_str :: "string \<Rightarrow> error + int" where
  \<comment> \<open>\<^verbatim>\<open>int(word)\<close> on a word that passed \<^verbatim>\<open>isdigit\<close>\<close>
  "int_of_str w =
     (if w \<noteq> [] \<and> list_all isdecimal_char w
      then Inr (foldl (\<lambda>acc c. 10 * acc + digit_value c) 0 w)
      else Inl InvalidLiteral)"

section \<open>The class Stack\<close>

record Stack =
  items :: "int list"

definition Stack_init :: Stack where
  "Stack_init = \<lparr>items = []\<rparr>"

definition push :: "Stack \<Rightarrow> int \<Rightarrow> Stack" where
  "push st item = st\<lparr>items := items st @ [item]\<rparr>"

definition is_empty :: "Stack \<Rightarrow> bool" where
  "is_empty st = (length (items st) = 0)"

definition pop :: "Stack \<Rightarrow> (error + int) \<times> Stack" where
  "pop st =
     (if \<not> is_empty st then (Inr (last (items st)), st\<lparr>items := butlast (items st)\<rparr>)
      else (Inl StackUnderflowError, st))"

definition get_last_item :: "Stack \<Rightarrow> int option" where
  \<comment> \<open>on an empty stack the method falls off its end and returns \<^verbatim>\<open>None\<close>\<close>
  "get_last_item st = (if \<not> is_empty st then Some (last (items st)) else None)"

section \<open>The class Calculator\<close>

datatype callable = Drop | Swap | Dup | Over
  | UserWord string  \<comment> \<open>the lambda of \<^verbatim>\<open>define_words\<close>, with the text it captured\<close>

record Calculator =
  stack :: Stack
  other_methods :: "string \<rightharpoonup> callable"

definition Calculator_init :: Calculator where
  "Calculator_init =
     \<lparr>stack = Stack_init,
      other_methods = [''drop'' \<mapsto> Drop, ''swap'' \<mapsto> Swap, ''dup'' \<mapsto> Dup, ''over'' \<mapsto> Over]\<rparr>"

definition add :: "int \<Rightarrow> int \<Rightarrow> int" where
  "add operand1 operand2 = operand1 + operand2"

definition subtract :: "int \<Rightarrow> int \<Rightarrow> int" where
  "subtract operand1 operand2 = operand1 - operand2"

definition multiply :: "int \<Rightarrow> int \<Rightarrow> int" where
  "multiply operand1 operand2 = operand1 * operand2"

definition divide_op :: "int \<Rightarrow> int \<Rightarrow> error + int" where
  \<comment> \<open>the method \<^verbatim>\<open>divide\<close>: \<^verbatim>\<open>operand1 // operand2\<close> on Python integers\<close>
  "divide_op operand1 operand2 =
     (if operand2 = 0 then Inl ZeroDivisionError else Inr (operand1 div operand2))"

definition operations :: "string \<rightharpoonup> (int \<Rightarrow> int \<Rightarrow> error + int)" where
  \<comment> \<open>\<^verbatim>\<open>self.operations\<close>: set by the constructor and never assigned again\<close>
  "operations =
     [''+'' \<mapsto> (\<lambda>a b. Inr (add a b)), ''-'' \<mapsto> (\<lambda>a b. Inr (subtract a b)),
      ''*'' \<mapsto> (\<lambda>a b. Inr (multiply a b)), ''/'' \<mapsto> divide_op]"

definition perform_operation :: "string \<Rightarrow> Calculator \<Rightarrow> (error + unit) \<times> Calculator" where
  "perform_operation operation s =
     (if length (items (stack s)) < 2 then (Inl StackUnderflowError, s)
      else case pop (stack s) of
        (Inl e, st1) \<Rightarrow> (Inl e, s\<lparr>stack := st1\<rparr>)
      | (Inr operand2, st1) \<Rightarrow>
          (case pop st1 of
            (Inl e, st2) \<Rightarrow> (Inl e, s\<lparr>stack := st2\<rparr>)
          | (Inr operand1, st2) \<Rightarrow>
              if operation = ''/'' \<and> operand2 = 0 then (Inl ZeroDivisionError, s\<lparr>stack := st2\<rparr>)
              else (case operations operation of
                None \<Rightarrow> (Inl KeyError, s\<lparr>stack := st2\<rparr>)
              | Some f \<Rightarrow>
                  (case f operand1 operand2 of
                    Inl e \<Rightarrow> (Inl e, s\<lparr>stack := st2\<rparr>)
                  | Inr result \<Rightarrow> (Inr (), s\<lparr>stack := push st2 result\<rparr>)))))"

definition drop_word :: "Calculator \<Rightarrow> (error + unit) \<times> Calculator" where
  \<comment> \<open>the method \<^verbatim>\<open>drop\<close>\<close>
  "drop_word s =
     (case pop (stack s) of
        (Inl e, st1) \<Rightarrow> (Inl e, s\<lparr>stack := st1\<rparr>)
      | (Inr _, st1) \<Rightarrow> (Inr (), s\<lparr>stack := st1\<rparr>))"

definition swap :: "Calculator \<Rightarrow> (error + unit) \<times> Calculator" where
  "swap s =
     (if length (items (stack s)) < 2 then (Inl StackUnderflowError, s)
      else case pop (stack s) of
        (Inl e, st1) \<Rightarrow> (Inl e, s\<lparr>stack := st1\<rparr>)
      | (Inr last_item, st1) \<Rightarrow>
          (case pop st1 of
            (Inl e, st2) \<Rightarrow> (Inl e, s\<lparr>stack := st2\<rparr>)
          | (Inr new_last_item, st2) \<Rightarrow>
              (Inr (), s\<lparr>stack := push (push st2 last_item) new_last_item\<rparr>)))"

definition dup :: "Calculator \<Rightarrow> (error + unit) \<times> Calculator" where
  \<comment> \<open>past the emptiness test \<^verbatim>\<open>get_last_item\<close> always finds an item\<close>
  "dup s =
     (if is_empty (stack s) then (Inl StackUnderflowError, s)
      else case get_last_item (stack s) of
        None \<Rightarrow> (Inr (), s)
      | Some v \<Rightarrow> (Inr (), s\<lparr>stack := push (stack s) v\<rparr>))"

definition over :: "Calculator \<Rightarrow> (error + unit) \<times> Calculator" where
  "over s =
     (if length (items (stack s)) < 2 then (Inl StackUnderflowError, s)
      else (Inr (), s\<lparr>stack := push (stack s) (items (stack s) ! (length (items (stack s)) - 2))\<rparr>))"

fun define_words :: "Calculator \<Rightarrow> string list \<Rightarrow> (error + unit) \<times> Calculator" where
  \<comment> \<open>an item that starts with a colon splits at colons into two pieces or more, so
      index 1 of \<^verbatim>\<open>item.split(":")\<close> is in range\<close>
  "define_words s [] = (Inr (), s)"
| "define_words s (item # rest) =
     (if startswith_colon (strip item)
      then (case split_maxsplit1 (CHR '' '') (strip (split_sep (CHR '':'') (strip item) ! 1)) of
              [word_name, definition] \<Rightarrow>
                define_words (s\<lparr>other_methods := (other_methods s)(word_name \<mapsto> UserWord definition)\<rparr>) rest
            | _ \<Rightarrow> (Inl UnpackError, s))
      else define_words s rest)"

text \<open>
  \<^verbatim>\<open>evaluate\<close> and \<^verbatim>\<open>select_operations\<close> call each other through the lambdas stored in
  \<^verbatim>\<open>other_methods\<close>, and a word whose text names itself recurses without end. The first
  argument bounds the nesting depth of user-word calls; \<open>None\<close> says that the bound was
  reached, so the call did not return within it.
\<close>

fun evaluate :: "nat \<Rightarrow> Calculator \<Rightarrow> string \<Rightarrow> ((error + int list) \<times> Calculator) option"
  and select_operations :: "nat \<Rightarrow> Calculator \<Rightarrow> string list \<Rightarrow> ((error + unit) \<times> Calculator) option"
  and call_method :: "nat \<Rightarrow> callable \<Rightarrow> Calculator \<Rightarrow> ((error + unit) \<times> Calculator) option"
where
  "evaluate n s input_data =
     (case define_words s (split_sep (CHR '';'') (lower input_data)) of
        (Inl e, s1) \<Rightarrow> Some (Inl e, s1)
      | (Inr _, s1) \<Rightarrow>
          (case select_operations n s1 (split_ws (last (split_sep (CHR '';'') (lower input_data)))) of
            None \<Rightarrow> None
          | Some (Inl e, s2) \<Rightarrow> Some (Inl e, s2)
          | Some (Inr _, s2) \<Rightarrow> Some (Inr (items (stack s2)), s2)))"
| "select_operations n s [] = Some (Inr (), s)"
| "select_operations n s (word # rest) =
     (if isdigit word then
        (case int_of_str word of
           Inl e \<Rightarrow> Some (Inl e, s)
         | Inr v \<Rightarrow> select_operations n (s\<lparr>stack := push (stack s) v\<rparr>) rest)
      else if word \<in> dom operations then
        (case perform_operation word s of
           (Inl e, s1) \<Rightarrow> Some (Inl e, s1)
         | (Inr _, s1) \<Rightarrow> select_operations n s1 rest)
      else (case other_methods s (lower word) of
           None \<Rightarrow> Some (Inl UndefinedOperation, s)
         | Some m \<Rightarrow>
             (case call_method n m s of
                None \<Rightarrow> None
              | Some (Inl e, s1) \<Rightarrow> Some (Inl e, s1)
              | Some (Inr _, s1) \<Rightarrow> select_operations n s1 rest)))"
| "call_method n Drop s = Some (drop_word s)"
| "call_method n Swap s = Some (swap s)"
| "call_method n Dup s = Some (dup s)"
| "call_method n Over s = Some (over s)"
| "call_method 0 (UserWord definition) s = None"
| "call_method (Suc n) (UserWord definition) s =
     (case evaluate n s definition of
        None \<Rightarrow> None
      | Some (Inl e, s1) \<Rightarrow> Some (Inl e, s1)
      | Some (Inr _, s1) \<Rightarrow> Some (Inr (), s1))"

section \<open>Splitting and trimming text\<close>

lemma isspace_space: "isspace (CHR '' '')"
  by (simp add: isspace_def)

lemma not_isspace_colon: "\<not> isspace (CHR '':'')"
  by (simp add: isspace_def)

lemma split_sep_from_no_sep:
  "sep \<notin> set a \<Longrightarrow> split_sep_from sep cur a = [cur @ a]"
  by (induction a arbitrary: cur) auto

lemma split_sep_from_append:
  "sep \<notin> set a \<Longrightarrow> split_sep_from sep cur (a @ sep # b) = (cur @ a) # split_sep_from sep [] b"
  by (induction a arbitrary: cur) auto


lemma split_sep_no_sep: "sep \<notin> set a \<Longrightarrow> split_sep sep a = [a]"
  by (simp add: split_sep_def split_sep_from_no_sep)

lemma split_sep_append:
  "sep \<notin> set a \<Longrightarrow> split_sep sep (a @ sep # b) = a # split_sep sep b"
  by (simp add: split_sep_def split_sep_from_append)


lemma strip_id:
  assumes "w \<noteq> []" "\<not> isspace (hd w)" "\<not> isspace (last w)"
  shows "strip w = w"
proof -
  from assms have a: "dropWhile isspace w = w"
    by (cases w) auto
  from assms have "dropWhile isspace (rev w) = rev w"
    by (cases "rev w") (auto simp: last_rev hd_rev)
  with a show ?thesis by (simp add: strip_def)
qed

lemma strip_leading: "isspace c \<Longrightarrow> strip (c # w) = strip w"
  by (simp add: strip_def)

lemma split_maxsplit1_first:
  "sep \<notin> set a \<Longrightarrow> split_maxsplit1 sep (a @ sep # b) = [a, b]"
  by (simp add: split_maxsplit1_def takeWhile_append dropWhile_append)

lemma split_maxsplit1_none:
  "sep \<notin> set a \<Longrightarrow> split_maxsplit1 sep a = [a]"
  by (simp add: split_maxsplit1_def)

lemma define_words_registers:
  assumes "name \<noteq> []" "\<not> list_ex isspace name" "CHR '':'' \<notin> set name"
    and "body \<noteq> []" "\<not> isspace (last body)" "CHR '':'' \<notin> set body"
  shows "define_words s (('': '' @ name @ '' '' @ body) # rest) =
         define_words (s\<lparr>other_methods := (other_methods s)(name \<mapsto> UserWord body)\<rparr>) rest"
proof -
  let ?seg = "'': '' @ name @ '' '' @ body"
  have sp: "CHR '' '' \<notin> set name"
    using assms(2) isspace_space by (auto simp: list_ex_iff)
  have hdn: "\<not> isspace (hd name)"
    using assms(1,2) by (cases name) (auto simp: list_ex_iff)
  have s1: "strip ?seg = ?seg"
    using assms(4,5) not_isspace_colon by (intro strip_id) auto
  have s2: "split_sep (CHR '':'') ?seg = [[], '' '' @ name @ '' '' @ body]"
    using split_sep_append [of "CHR '':''" "[]" "'' '' @ name @ '' '' @ body"]
      split_sep_no_sep [of "CHR '':''" "'' '' @ name @ '' '' @ body"] assms(3,6)
    by simp
  have s3: "strip ('' '' @ name @ '' '' @ body) = name @ '' '' @ body"
  proof -
    have "strip ('' '' @ name @ '' '' @ body) = strip (name @ '' '' @ body)"
      using strip_leading [OF isspace_space] by simp
    also have "\<dots> = name @ '' '' @ body"
      using assms(1,4,5) hdn by (intro strip_id) auto
    finally show ?thesis .
  qed
  have s4: "split_maxsplit1 (CHR '' '') (name @ '' '' @ body) = [name, body]"
    using split_maxsplit1_first [OF sp, of body] by simp
  have s5: "startswith_colon ?seg"
    by (simp add: startswith_colon_def)
  show ?thesis
    using s1 s2 s3 s4 s5 by (simp del: append.simps)
qed

section \<open>The stack and the dispatch loop\<close>

lemma pop_snoc: "items st = xs @ [x] \<Longrightarrow> pop st = (Inr x, st\<lparr>items := xs\<rparr>)"
  by (simp add: pop_def is_empty_def)

lemma pop_empty: "items st = [] \<Longrightarrow> pop st = (Inl StackUnderflowError, st)"
  by (simp add: pop_def is_empty_def)

lemma two_items:
  assumes "2 \<le> length (l :: int list)"
  shows "l = butlast (butlast l) @ [last (butlast l), last l]"
proof -
  from assms have "l \<noteq> []" by auto
  then have a: "l = butlast l @ [last l]" by simp
  from assms have "butlast l \<noteq> []" by (cases l) auto
  then have b: "butlast l = butlast (butlast l) @ [last (butlast l)]" by simp
  have "l = (butlast (butlast l) @ [last (butlast l)]) @ [last l]"
    using a b by metis
  then show ?thesis by simp
qed

lemma dom_operations: "dom operations = {''+'', ''-'', ''*'', ''/''}"
  by (auto simp: operations_def split: if_splits)

lemma operations_plus: "operations ''+'' = Some (\<lambda>a b. Inr (add a b))"
  by (simp add: operations_def)

lemma operations_minus: "operations ''-'' = Some (\<lambda>a b. Inr (subtract a b))"
  by (simp add: operations_def)

lemma operations_times: "operations ''*'' = Some (\<lambda>a b. Inr (multiply a b))"
  by (simp add: operations_def)

lemma operations_slash: "operations ''/'' = Some divide_op"
  by (simp add: operations_def)

lemma not_isdigit_operator: "w \<in> dom operations \<Longrightarrow> \<not> isdigit w"
  by (auto simp: dom_operations isdigit_def isdigit_char_def isdecimal_char_def)

lemma perform_operation_two:
  assumes "items (stack s) = xs @ [a, b]"
  shows "perform_operation operation s =
     (if operation = ''/'' \<and> b = 0 then (Inl ZeroDivisionError, s\<lparr>stack := (stack s)\<lparr>items := xs\<rparr>\<rparr>)
      else case operations operation of
        None \<Rightarrow> (Inl KeyError, s\<lparr>stack := (stack s)\<lparr>items := xs\<rparr>\<rparr>)
      | Some f \<Rightarrow>
          (case f a b of
            Inl e \<Rightarrow> (Inl e, s\<lparr>stack := (stack s)\<lparr>items := xs\<rparr>\<rparr>)
          | Inr result \<Rightarrow> (Inr (), s\<lparr>stack := (stack s)\<lparr>items := xs @ [result]\<rparr>\<rparr>)))"
proof -
  have p1: "pop (stack s) = (Inr b, (stack s)\<lparr>items := xs @ [a]\<rparr>)"
    using pop_snoc [of "stack s" "xs @ [a]" b] assms by simp
  have p2: "pop ((stack s)\<lparr>items := xs @ [a]\<rparr>) = (Inr a, (stack s)\<lparr>items := xs\<rparr>)"
    using pop_snoc [of "(stack s)\<lparr>items := xs @ [a]\<rparr>" xs a] by simp
  show ?thesis
    using assms by (simp add: perform_operation_def p1 p2 push_def split: option.split sum.split)
qed

lemma select_operations_append:
  "select_operations n s (pre @ post) =
     (case select_operations n s pre of
        None \<Rightarrow> None
      | Some (Inl e, s1) \<Rightarrow> Some (Inl e, s1)
      | Some (Inr _, s1) \<Rightarrow> select_operations n s1 post)"
  by (induction pre arbitrary: s) (auto split: sum.splits option.splits prod.splits)

lemma select_operations_operator:
  "w \<in> dom operations \<Longrightarrow>
   select_operations n s (w # rest) =
     (case perform_operation w s of
        (Inl e, s1) \<Rightarrow> Some (Inl e, s1)
      | (Inr _, s1) \<Rightarrow> select_operations n s1 rest)"
  using not_isdigit_operator [of w] by simp

lemma perform_operation_underflow:
  "length (items (stack s)) < 2 \<Longrightarrow> perform_operation operation s = (Inl StackUnderflowError, s)"
  by (simp add: perform_operation_def)

lemma perform_operation_slash_zero:
  assumes "2 \<le> length (items (stack s))" and "last (items (stack s)) = 0"
  shows "perform_operation ''/'' s =
    (Inl ZeroDivisionError, s\<lparr>stack := (stack s)\<lparr>items := butlast (butlast (items (stack s)))\<rparr>\<rparr>)"
proof -
  have "items (stack s) =
      butlast (butlast (items (stack s))) @ [last (butlast (items (stack s))), 0]"
    using two_items [OF assms(1)] assms(2) by simp
  from perform_operation_two [OF this, of "''/''"] show ?thesis by simp
qed

lemma evaluate_tokens:
  assumes "define_words s (split_sep (CHR '';'') (lower input_data)) = (Inr (), s0)"
    and "split_ws (last (split_sep (CHR '';'') (lower input_data))) = tokens"
  shows "evaluate n s input_data =
     (case select_operations n s0 tokens of
        None \<Rightarrow> None
      | Some (Inl e, s2) \<Rightarrow> Some (Inl e, s2)
      | Some (Inr _, s2) \<Rightarrow> Some (Inr (items (stack s2)), s2))"
  using assms by simp




lemma lower_append: "lower (a @ b) = lower a @ lower b"
  by (simp add: lower_def)

lemma lower_semicolon: "lower '';'' = '';''"
  by (simp add: lower_def lower_char_def)





lemma define_words_grows:
  "dom (other_methods s) \<subseteq> dom (other_methods (snd (define_words s segments)))"
proof (induction segments arbitrary: s)
  case Nil
  show ?case by simp
next
  case (Cons item rest)
  note IH = Cons.IH
  show ?case
  proof (cases "startswith_colon (strip item)")
    case False
    then show ?thesis using IH [of s] by simp
  next
    case True
    show ?thesis
    proof (cases "split_maxsplit1 (CHR '' '') (strip (split_sep (CHR '':'') (strip item) ! 1))")
      case Nil
      then show ?thesis using True by simp
    next
      case (Cons word_name tl1)
      note c1 = Cons
      show ?thesis
      proof (cases tl1)
        case Nil
        then show ?thesis using True c1 by simp
      next
        case (Cons body tl2)
        note c2 = Cons
        show ?thesis
        proof (cases tl2)
          case Nil
          have "dom (other_methods s) \<subseteq>
              dom (other_methods (s\<lparr>other_methods := (other_methods s)(word_name \<mapsto> UserWord body)\<rparr>))"
            by auto
          also have "\<dots> \<subseteq> dom (other_methods (snd (define_words
              (s\<lparr>other_methods := (other_methods s)(word_name \<mapsto> UserWord body)\<rparr>) rest)))"
            by (rule IH)
          finally show ?thesis using True c1 c2 Nil by simp
        next
          case (Cons x tl3)
          then show ?thesis using True c1 c2 by simp
        qed
      qed
    qed
  qed
qed

lemma perform_operation_other_methods:
  "other_methods (snd (perform_operation operation s)) = other_methods s"
  by (simp add: perform_operation_def pop_def push_def split: option.split sum.split)

lemma drop_word_other_methods: "other_methods (snd (drop_word s)) = other_methods s"
  by (simp add: drop_word_def pop_def)

lemma swap_other_methods: "other_methods (snd (swap s)) = other_methods s"
  by (simp add: swap_def pop_def push_def)

lemma dup_other_methods: "other_methods (snd (dup s)) = other_methods s"
  by (simp add: dup_def get_last_item_def push_def)

lemma over_other_methods: "other_methods (snd (over s)) = other_methods s"
  by (simp add: over_def push_def)

lemma other_methods_grow:
  "evaluate n s input_data = Some (r, s') \<Longrightarrow> dom (other_methods s) \<subseteq> dom (other_methods s')"
  "select_operations n s tokens = Some (q, s') \<Longrightarrow> dom (other_methods s) \<subseteq> dom (other_methods s')"
  "call_method n m s = Some (q, s') \<Longrightarrow> dom (other_methods s) \<subseteq> dom (other_methods s')"
proof (induction n s input_data and n s tokens and n m s arbitrary: r s' and q s' and q s'
    rule: evaluate_select_operations_call_method.induct)
  case (1 n s input_data)
  let ?segs = "split_sep (CHR '';'') (lower input_data)"
  obtain d s1 where dw: "define_words s ?segs = (d, s1)"
    by (cases "define_words s ?segs")
  have g: "dom (other_methods s) \<subseteq> dom (other_methods s1)"
    using define_words_grows [of s ?segs] dw by simp
  show ?case
  proof (cases d)
    case (Inl e)
    with "1.prems" dw have "s' = s1" by simp
    with g show ?thesis by simp
  next
    case (Inr b)
    with "1.prems" dw obtain q where "select_operations n s1 (split_ws (last ?segs)) = Some (q, s')"
      by (auto split: option.splits sum.splits prod.splits)
    from "1.IH" [OF dw [symmetric] Inr this] g show ?thesis by blast
  qed
next
  case (2 n s)
  then show ?case by simp
next
  case (3 n s word rest)
  show ?case
  proof (cases "isdigit word")
    case True
    show ?thesis
    proof (cases "int_of_str word")
      case (Inl e)
      with True "3.prems" show ?thesis by simp
    next
      case (Inr v)
      with True "3.prems" have "select_operations n (s\<lparr>stack := push (stack s) v\<rparr>) rest = Some (q, s')"
        by simp
      from "3.IH"(1) [OF True Inr this] show ?thesis by simp
    qed
  next
    case False
    note nd = False
    show ?thesis
    proof (cases "word \<in> dom operations")
      case True
      obtain x y where po: "perform_operation word s = (x, y)"
        by (cases "perform_operation word s")
      have om: "other_methods y = other_methods s"
        using perform_operation_other_methods [of word s] po by simp
      show ?thesis
      proof (cases x)
        case (Inl e)
        with nd True po "3.prems" have "s' = y" by simp
        with om show ?thesis by simp
      next
        case (Inr b)
        with nd True po "3.prems" have "select_operations n y rest = Some (q, s')" by simp
        from "3.IH"(2) [OF nd True po [symmetric] Inr this] om show ?thesis by simp
      qed
    next
      case False
      note no = False
      show ?thesis
      proof (cases "other_methods s (lower word)")
        case None
        with nd no "3.prems" show ?thesis by simp
      next
        case (Some m)
        from nd no Some "3.prems" obtain x y where cm: "call_method n m s = Some (x, y)"
          by (auto split: option.splits)
        from "3.IH"(3) [OF nd no Some cm] have g: "dom (other_methods s) \<subseteq> dom (other_methods y)" .
        show ?thesis
        proof (cases x)
          case (Inl e)
          with nd no Some cm "3.prems" have "s' = y" by simp
          with g show ?thesis by simp
        next
          case (Inr b)
          with nd no Some cm "3.prems" have "select_operations n y rest = Some (q, s')" by simp
          from "3.IH"(4) [OF nd no Some cm refl Inr this] g show ?thesis by blast
        qed
      qed
    qed
  qed
next
  case (4 n s)
  then show ?case using drop_word_other_methods [of s] by auto
next
  case (5 n s)
  then show ?case using swap_other_methods [of s] by auto
next
  case (6 n s)
  then show ?case using dup_other_methods [of s] by auto
next
  case (7 n s)
  then show ?case using over_other_methods [of s] by auto
next
  case (8 body s)
  then show ?case by simp
next
  case (9 n body s)
  from "9.prems" obtain r where "evaluate n s body = Some (r, s')"
    by (auto simp del: evaluate.simps split: option.splits sum.splits prod.splits)
  from "9.IH" [OF this] show ?case .
qed

lemmas text_eval = isspace_def isdigit_def isdigit_char_def isdecimal_char_def lower_def lower_char_def
  strip_def startswith_colon_def split_sep_def split_maxsplit1_def split_ws_def digit_value_def
  int_of_str_def

lemmas stack_eval = Stack_init_def push_def pop_def is_empty_def get_last_item_def
  Calculator_init_def add_def subtract_def multiply_def divide_op_def operations_def
  perform_operation_def drop_word_def swap_def dup_def over_def

section \<open>Arithmetic words\<close>

text \<open>
  Claim C2. A binary arithmetic token met with \<open>operand1\<close> below \<open>operand2\<close> on top
  of the stack takes both off and leaves \<open>operand1 + operand2\<close>, \<open>operand1 - operand2\<close> or
  \<open>operand1 * operand2\<close> in their place, and the interpreter goes on with the next token;
  \<^verbatim>\<open>evaluate("2 3 -")\<close> on a new Calculator returns \<open>[-1]\<close>.
\<close>

theorem binary_arithmetic_operand_order:
  assumes "items (stack s) = xs @ [operand1, operand2]"
  shows "select_operations n s (''+'' # rest) =
           select_operations n (s\<lparr>stack := (stack s)\<lparr>items := xs @ [operand1 + operand2]\<rparr>\<rparr>) rest
       \<and> select_operations n s (''-'' # rest) =
           select_operations n (s\<lparr>stack := (stack s)\<lparr>items := xs @ [operand1 - operand2]\<rparr>\<rparr>) rest
       \<and> select_operations n s (''*'' # rest) =
           select_operations n (s\<lparr>stack := (stack s)\<lparr>items := xs @ [operand1 * operand2]\<rparr>\<rparr>) rest
       \<and> map_option fst (evaluate n Calculator_init ''2 3 -'') = Some (Inr [- 1])"
proof -
  have plus: "select_operations n s (''+'' # rest) =
      select_operations n (s\<lparr>stack := (stack s)\<lparr>items := xs @ [operand1 + operand2]\<rparr>\<rparr>) rest"
    using perform_operation_two [OF assms, of "''+''"]
    by (simp add: select_operations_operator [of "''+''"] dom_operations operations_plus add_def del: select_operations.simps)
  have minus: "select_operations n s (''-'' # rest) =
      select_operations n (s\<lparr>stack := (stack s)\<lparr>items := xs @ [operand1 - operand2]\<rparr>\<rparr>) rest"
    using perform_operation_two [OF assms, of "''-''"]
    by (simp add: select_operations_operator [of "''-''"] dom_operations operations_minus subtract_def del: select_operations.simps)
  have times: "select_operations n s (''*'' # rest) =
      select_operations n (s\<lparr>stack := (stack s)\<lparr>items := xs @ [operand1 * operand2]\<rparr>\<rparr>) rest"
    using perform_operation_two [OF assms, of "''*''"]
    by (simp add: select_operations_operator [of "''*''"] dom_operations operations_times multiply_def del: select_operations.simps)
  have ex: "map_option fst (evaluate n Calculator_init ''2 3 -'') = Some (Inr [- 1])"
    by code_simp
  from plus minus times ex show ?thesis by blast
qed

theorem binary_arithmetic_operand_order_witness:
  "items (stack \<lparr>stack = \<lparr>items = [7, 2, 3]\<rparr>, other_methods = Map.empty\<rparr>) = [7] @ [2, 3]
   \<and> map_option (\<lambda>r. items (stack (snd r)))
        (select_operations 0 \<lparr>stack = \<lparr>items = [7, 2, 3]\<rparr>, other_methods = Map.empty\<rparr> [''-''])
      = Some [7, - 1]"
  using binary_arithmetic_operand_order
    [of "\<lparr>stack = \<lparr>items = [7, 2, 3]\<rparr>, other_methods = Map.empty\<rparr>" "[7]" 2 3 0 "[]"]
  by simp

text \<open>
  Claim C5. The token \<^verbatim>\<open>/\<close> with \<open>a\<close> below a nonzero \<open>b\<close> leaves the floor of the
  real quotient \<open>a / b\<close>: \<^verbatim>\<open>evaluate("7 2 /")\<close> returns \<open>[3]\<close>, and \<open>-7\<close> divided by
  \<open>2\<close> gives \<open>-4\<close>, where truncation toward zero would give \<open>-3\<close>.
\<close>

theorem divide_is_floor_division:
  assumes "items (stack s) = xs @ [a, b]" and "b \<noteq> 0"
  shows "select_operations n s (''/'' # rest) =
           select_operations n
             (s\<lparr>stack := (stack s)\<lparr>items := xs @ [\<lfloor>real_of_int a / real_of_int b\<rfloor>]\<rparr>\<rparr>) rest
       \<and> map_option fst (evaluate n Calculator_init ''7 2 /'') = Some (Inr [3])
       \<and> map_option fst (evaluate n Calculator_init ''0 7 - 2 /'') = Some (Inr [- 4])"
proof -
  have fl: "\<lfloor>real_of_int a / real_of_int b\<rfloor> = a div b"
    by (rule floor_divide_of_int_eq)
  have dv: "select_operations n s (''/'' # rest) =
      select_operations n (s\<lparr>stack := (stack s)\<lparr>items := xs @ [a div b]\<rparr>\<rparr>) rest"
    using perform_operation_two [OF assms(1), of "''/''"] assms(2)
    by (simp add: select_operations_operator [of "''/''"] dom_operations operations_slash divide_op_def del: select_operations.simps)
  have ex1: "map_option fst (evaluate n Calculator_init ''7 2 /'') = Some (Inr [3])"
    by code_simp
  have ex2: "map_option fst (evaluate n Calculator_init ''0 7 - 2 /'') = Some (Inr [- 4])"
    by code_simp
  from dv fl ex1 ex2 show ?thesis by simp
qed

theorem divide_is_floor_division_witness:
  "items (stack \<lparr>stack = \<lparr>items = [- 7, 2]\<rparr>, other_methods = Map.empty\<rparr>) = [] @ [- 7, 2]
   \<and> (2::int) \<noteq> 0
   \<and> map_option (\<lambda>r. items (stack (snd r)))
        (select_operations 0 \<lparr>stack = \<lparr>items = [- 7, 2]\<rparr>, other_methods = Map.empty\<rparr> [''/''])
      = Some [- 4]"
  using divide_is_floor_division
    [of "\<lparr>stack = \<lparr>items = [- 7, 2]\<rparr>, other_methods = Map.empty\<rparr>" "[]" "- 7" 2 0 "[]"]
  by simp

section \<open>Failures of the execution pass\<close>

text \<open>
  Claim C6. When the definition pass succeeds and the executed segment runs without failure
  up to a token \<^verbatim>\<open>/\<close>, met with at least two items on the stack and zero on top,
  \<^verbatim>\<open>evaluate\<close> fails with \<^verbatim>\<open>ZeroDivisionError\<close>, whatever follows the token;
  \<^verbatim>\<open>evaluate("5 0 /")\<close> on a new Calculator fails so.
\<close>

theorem division_by_zero_fails:
  assumes "define_words s (split_sep (CHR '';'') (lower input_data)) = (Inr (), s0)"
    and "split_ws (last (split_sep (CHR '';'') (lower input_data))) = pre @ ''/'' # rest"
    and "select_operations n s0 pre = Some (Inr (), s1)"
    and "2 \<le> length (items (stack s1))" and "last (items (stack s1)) = 0"
  shows "map_option fst (evaluate n s input_data) = Some (Inl ZeroDivisionError)
       \<and> map_option fst (evaluate n Calculator_init ''5 0 /'') = Some (Inl ZeroDivisionError)"
proof -
  have "select_operations n s1 (''/'' # rest) =
      Some (Inl ZeroDivisionError, s1\<lparr>stack := (stack s1)\<lparr>items := butlast (butlast (items (stack s1)))\<rparr>\<rparr>)"
    using perform_operation_slash_zero [OF assms(4,5)]
    by (simp add: select_operations_operator [of "''/''"] dom_operations del: select_operations.simps)
  then have "select_operations n s0 (pre @ ''/'' # rest) =
      Some (Inl ZeroDivisionError, s1\<lparr>stack := (stack s1)\<lparr>items := butlast (butlast (items (stack s1)))\<rparr>\<rparr>)"
    using assms(3) by (simp add: select_operations_append del: select_operations.simps)
  then have gen: "map_option fst (evaluate n s input_data) = Some (Inl ZeroDivisionError)"
    using evaluate_tokens [OF assms(1,2)] by (simp del: evaluate.simps select_operations.simps)
  have ex: "map_option fst (evaluate n Calculator_init ''5 0 /'') = Some (Inl ZeroDivisionError)"
    by code_simp
  from gen ex show ?thesis by simp
qed

theorem division_by_zero_fails_witness:
  "map_option fst (evaluate 1 Calculator_init '': z 0 ; 1 4 z / 9'') = Some (Inl ZeroDivisionError)"
proof -
  let ?s0 = "Calculator_init\<lparr>other_methods := (other_methods Calculator_init)(''z'' \<mapsto> UserWord ''0'')\<rparr>"
  let ?s1 = "?s0\<lparr>stack := \<lparr>items = [1, 4, 0]\<rparr>\<rparr>"
  have l: "lower '': z 0 ; 1 4 z / 9'' = '': z 0 ; 1 4 z / 9''"
    by code_simp
  have sp: "split_sep (CHR '';'') '': z 0 ; 1 4 z / 9'' = ['': z 0 '', '' 1 4 z / 9'']"
    by code_simp
  have tk: "split_ws '' 1 4 z / 9'' = [''1'', ''4'', ''z''] @ ''/'' # [''9'']"
    by code_simp
  have d: "define_words Calculator_init ['': z 0 '', '' 1 4 z / 9''] = (Inr (), ?s0)"
    by (simp add: text_eval stack_eval)
  have so: "select_operations 1 ?s0 [''1'', ''4'', ''z''] = Some (Inr (), ?s1)"
    by (simp add: text_eval stack_eval)
  show ?thesis
    using division_by_zero_fails [of Calculator_init "'': z 0 ; 1 4 z / 9''" ?s0 "[''1'', ''4'', ''z'']" "[''9'']" 1 ?s1]
      l sp tk d so
    by simp
qed

text \<open>
  Tokens that \<^verbatim>\<open>isdigit\<close> rejects. When the definition pass succeeds and the executed
  segment runs without failure up to a token that \<^verbatim>\<open>isdigit\<close> rejects and that is neither
  a key of \<^verbatim>\<open>operations\<close> nor (lowered) a key of \<^verbatim>\<open>other_methods\<close>, which holds the
  built-in stack words and the user words, \<^verbatim>\<open>evaluate\<close> fails there with the
  \<^verbatim>\<open>ValueError\<close> "Undefined operation" and leaves the Calculator as that token found it;
  \<^verbatim>\<open>evaluate("1 foo")\<close> on a new Calculator fails so.
\<close>

theorem undefined_word_fails:
  assumes "define_words s (split_sep (CHR '';'') (lower input_data)) = (Inr (), s0)"
    and "split_ws (last (split_sep (CHR '';'') (lower input_data))) = pre @ word # rest"
    and "select_operations n s0 pre = Some (Inr (), s1)"
    and "\<not> isdigit word" and "word \<notin> dom operations" and "other_methods s1 (lower word) = None"
  shows "evaluate n s input_data = Some (Inl UndefinedOperation, s1)
       \<and> map_option fst (evaluate n Calculator_init ''1 foo'') = Some (Inl UndefinedOperation)"
proof -
  have "select_operations n s1 (word # rest) = Some (Inl UndefinedOperation, s1)"
    using assms(4,5,6) by simp
  then have "select_operations n s0 (pre @ word # rest) = Some (Inl UndefinedOperation, s1)"
    using assms(3) by (simp add: select_operations_append del: select_operations.simps)
  then have gen: "evaluate n s input_data = Some (Inl UndefinedOperation, s1)"
    using evaluate_tokens [OF assms(1,2)] by (simp del: evaluate.simps select_operations.simps)
  have ex: "map_option fst (evaluate n Calculator_init ''1 foo'') = Some (Inl UndefinedOperation)"
    by code_simp
  from gen ex show ?thesis by simp
qed

theorem undefined_word_fails_witness:
  "map_option fst (evaluate 1 Calculator_init '': two 2 ; 1 two bar 9'') = Some (Inl UndefinedOperation)"
proof -
  let ?s0 = "Calculator_init\<lparr>other_methods := (other_methods Calculator_init)(''two'' \<mapsto> UserWord ''2'')\<rparr>"
  let ?s1 = "?s0\<lparr>stack := \<lparr>items = [1, 2]\<rparr>\<rparr>"
  have l: "lower '': two 2 ; 1 two bar 9'' = '': two 2 ; 1 two bar 9''"
    by code_simp
  have sp: "split_sep (CHR '';'') '': two 2 ; 1 two bar 9'' = ['': two 2 '', '' 1 two bar 9'']"
    by code_simp
  have tk: "split_ws '' 1 two bar 9'' = [''1'', ''two''] @ ''bar'' # [''9'']"
    by code_simp
  have d: "define_words Calculator_init ['': two 2 '', '' 1 two bar 9''] = (Inr (), ?s0)"
    by (simp add: text_eval stack_eval)
  have so: "select_operations 1 ?s0 [''1'', ''two''] = Some (Inr (), ?s1)"
    by (simp add: text_eval stack_eval)
  have w: "\<not> isdigit ''bar''" "''bar'' \<notin> dom operations" "other_methods ?s1 (lower ''bar'') = None"
    by (simp_all add: text_eval stack_eval dom_operations)
  show ?thesis
    using undefined_word_fails [of Calculator_init "'': two 2 ; 1 two bar 9''" ?s0 "[''1'', ''two'']" "''bar''" "[''9'']" 1 ?s1]
      l sp tk d so w
    by simp
qed

text \<open>
  Claim C8. Every token that is no decimal literal, no arithmetic operator, no stack word
  and no user word is to fail with "Undefined operation". The one-character token U+00B2
  (superscript two) is none of the four: it is not made of decimal digits, and neither
  table knows it. \<^verbatim>\<open>isdigit\<close> accepts it all the same, so \<^verbatim>\<open>select_operations\<close> hands it
  to \<^verbatim>\<open>int\<close>, and \<^verbatim>\<open>evaluate\<close> on the digit one, a space and U+00B2 ends with the
  invalid-literal \<^verbatim>\<open>ValueError\<close> of \<^verbatim>\<open>int\<close>, not with "Undefined operation".
\<close>

theorem superscript_digit_token_raises_invalid_literal:
  "isdigit [CHR 0xB2] \<and> \<not> list_all isdecimal_char [CHR 0xB2]
   \<and> [CHR 0xB2] \<notin> dom operations
   \<and> other_methods Calculator_init (lower [CHR 0xB2]) = None
   \<and> map_option fst (evaluate n Calculator_init (''1 '' @ [CHR 0xB2])) = Some (Inl InvalidLiteral)
   \<and> map_option fst (evaluate n Calculator_init (''1 '' @ [CHR 0xB2])) \<noteq> Some (Inl UndefinedOperation)"
proof -
  have a: "isdigit [CHR 0xB2]" "\<not> list_all isdecimal_char [CHR 0xB2]"
    by (simp_all add: isdigit_def isdigit_char_def isdecimal_char_def)
  have b: "[CHR 0xB2] \<notin> dom operations"
    by (simp add: dom_operations)
  have c: "other_methods Calculator_init (lower [CHR 0xB2]) = None"
    by code_simp
  have d: "map_option fst (evaluate n Calculator_init (''1 '' @ [CHR 0xB2])) = Some (Inl InvalidLiteral)"
    by code_simp
  have e: "map_option fst (evaluate n Calculator_init (''1 '' @ [CHR 0xB2])) \<noteq> Some (Inl UndefinedOperation)"
    unfolding d by simp
  from a b c d e show ?thesis by blast
qed

text \<open>
  Claim C10. A token \<^verbatim>\<open>/\<close> that fails with \<^verbatim>\<open>ZeroDivisionError\<close> has already taken
  both operands off: the stack at the failure is the stack before the token without its
  two top items. After \<^verbatim>\<open>evaluate("1 5 0 /")\<close> has failed, the stack holds \<open>[1]\<close>.
\<close>

theorem division_by_zero_pops_both_operands:
  assumes "2 \<le> length (items (stack s))" and "last (items (stack s)) = 0"
  shows "select_operations n s (''/'' # rest) =
           Some (Inl ZeroDivisionError,
                 s\<lparr>stack := (stack s)\<lparr>items := butlast (butlast (items (stack s)))\<rparr>\<rparr>)
       \<and> length (butlast (butlast (items (stack s)))) + 2 = length (items (stack s))
       \<and> map_option (\<lambda>r. (fst r, items (stack (snd r)))) (evaluate n Calculator_init ''1 5 0 /'')
           = Some (Inl ZeroDivisionError, [1])"
proof -
  have a: "select_operations n s (''/'' # rest) =
      Some (Inl ZeroDivisionError, s\<lparr>stack := (stack s)\<lparr>items := butlast (butlast (items (stack s)))\<rparr>\<rparr>)"
    using perform_operation_slash_zero [OF assms]
    by (simp add: select_operations_operator [of "''/''"] dom_operations del: select_operations.simps)
  have b: "length (butlast (butlast (items (stack s)))) + 2 = length (items (stack s))"
    using assms(1) by simp
  have c: "map_option (\<lambda>r. (fst r, items (stack (snd r)))) (evaluate n Calculator_init ''1 5 0 /'')
      = Some (Inl ZeroDivisionError, [1])"
    by code_simp
  from a b c show ?thesis by simp
qed

theorem division_by_zero_pops_both_operands_witness:
  "select_operations 0 \<lparr>stack = \<lparr>items = [8, 6, 0]\<rparr>, other_methods = Map.empty\<rparr> [''/'', ''3'']
     = Some (Inl ZeroDivisionError, \<lparr>stack = \<lparr>items = [8]\<rparr>, other_methods = Map.empty\<rparr>)"
  using division_by_zero_pops_both_operands
    [of "\<lparr>stack = \<lparr>items = [8, 6, 0]\<rparr>, other_methods = Map.empty\<rparr>" 0 "[''3'']"]
  by simp

text \<open>
  Claim C7. \<^verbatim>\<open>StackUnderflowError\<close> is raised exactly when the stack is too short:
  by \<^verbatim>\<open>pop\<close>, \<^verbatim>\<open>drop\<close> and \<^verbatim>\<open>dup\<close> exactly on an empty stack, and by each of the four
  arithmetic words, \<^verbatim>\<open>swap\<close> and \<^verbatim>\<open>over\<close> exactly on a stack of fewer than two items;
  \<^verbatim>\<open>evaluate("dup")\<close> on a new Calculator fails with it.
\<close>

theorem stack_underflow_exactly_when_too_few_items:
  "(fst (pop st) = Inl StackUnderflowError) = (length (items st) < 1)
 \<and> (fst (perform_operation ''+'' s) = Inl StackUnderflowError) = (length (items (stack s)) < 2)
 \<and> (fst (perform_operation ''-'' s) = Inl StackUnderflowError) = (length (items (stack s)) < 2)
 \<and> (fst (perform_operation ''*'' s) = Inl StackUnderflowError) = (length (items (stack s)) < 2)
 \<and> (fst (perform_operation ''/'' s) = Inl StackUnderflowError) = (length (items (stack s)) < 2)
 \<and> (fst (swap s) = Inl StackUnderflowError) = (length (items (stack s)) < 2)
 \<and> (fst (over s) = Inl StackUnderflowError) = (length (items (stack s)) < 2)
 \<and> (fst (drop_word s) = Inl StackUnderflowError) = (length (items (stack s)) < 1)
 \<and> (fst (dup s) = Inl StackUnderflowError) = (length (items (stack s)) < 1)
 \<and> map_option fst (evaluate n Calculator_init ''dup'') = Some (Inl StackUnderflowError)"
proof -
  have p: "(fst (pop st) = Inl StackUnderflowError) = (length (items st) < 1)" for st
    by (simp add: pop_def is_empty_def)
  have po: "(fst (perform_operation operation s) = Inl StackUnderflowError) = (length (items (stack s)) < 2)"
    if "operation \<in> dom operations" for operation
  proof (cases "length (items (stack s)) < 2")
    case True
    then show ?thesis by (simp add: perform_operation_underflow)
  next
    case False
    then have "2 \<le> length (items (stack s))" by simp
    from two_items [OF this] obtain xs a b where "items (stack s) = xs @ [a, b]" by blast
    from perform_operation_two [OF this, of operation] that False show ?thesis
      by (auto simp: dom_operations operations_plus operations_minus operations_times
          operations_slash divide_op_def)
  qed
  have sw: "(fst (swap s) = Inl StackUnderflowError) = (length (items (stack s)) < 2)"
  proof (cases "length (items (stack s)) < 2")
    case True
    then show ?thesis by (simp add: swap_def)
  next
    case False
    then have "2 \<le> length (items (stack s))" by simp
    from two_items [OF this] obtain xs a b where i: "items (stack s) = xs @ [a, b]" by blast
    have p1: "pop (stack s) = (Inr b, (stack s)\<lparr>items := xs @ [a]\<rparr>)"
      using pop_snoc [of "stack s" "xs @ [a]" b] i by simp
    have p2: "pop ((stack s)\<lparr>items := xs @ [a]\<rparr>) = (Inr a, (stack s)\<lparr>items := xs\<rparr>)"
      using pop_snoc [of "(stack s)\<lparr>items := xs @ [a]\<rparr>" xs a] by simp
    show ?thesis using False i by (simp add: swap_def p1 p2)
  qed
  have ov: "(fst (over s) = Inl StackUnderflowError) = (length (items (stack s)) < 2)"
    by (simp add: over_def)
  have dr: "(fst (drop_word s) = Inl StackUnderflowError) = (length (items (stack s)) < 1)"
    by (simp add: drop_word_def pop_def is_empty_def)
  have du: "(fst (dup s) = Inl StackUnderflowError) = (length (items (stack s)) < 1)"
    by (simp add: dup_def get_last_item_def is_empty_def)
  have ex: "map_option fst (evaluate n Calculator_init ''dup'') = Some (Inl StackUnderflowError)"
    by code_simp
  show ?thesis
    using p po [of "''+''"] po [of "''-''"] po [of "''*''"] po [of "''/''"] sw ov dr du ex
    by (simp add: dom_operations)
qed

theorem stack_underflow_exactly_when_too_few_items_witness:
  "fst (pop \<lparr>items = []\<rparr>) = Inl StackUnderflowError
 \<and> fst (swap \<lparr>stack = \<lparr>items = [4]\<rparr>, other_methods = Map.empty\<rparr>) = Inl StackUnderflowError
 \<and> fst (dup \<lparr>stack = \<lparr>items = [4]\<rparr>, other_methods = Map.empty\<rparr>) \<noteq> Inl StackUnderflowError
 \<and> fst (perform_operation ''/'' \<lparr>stack = \<lparr>items = [4, 0]\<rparr>, other_methods = Map.empty\<rparr>)
      \<noteq> Inl StackUnderflowError"
  using stack_underflow_exactly_when_too_few_items
    [of "\<lparr>items = []\<rparr>" "\<lparr>stack = \<lparr>items = [4]\<rparr>, other_methods = Map.empty\<rparr>" 0]
    stack_underflow_exactly_when_too_few_items
    [of "\<lparr>items = []\<rparr>" "\<lparr>stack = \<lparr>items = [4, 0]\<rparr>, other_methods = Map.empty\<rparr>" 0]
  by simp

section \<open>User-defined words\<close>




text \<open>
  Claim C3 says that after \<^verbatim>\<open>: + body\<close> the token \<^verbatim>\<open>+\<close> runs \<open>body\<close>. With
  \<^verbatim>\<open>: + * ; 2 3 +\<close> the text \<^verbatim>\<open>*\<close> is stored under \<^verbatim>\<open>+\<close> in \<^verbatim>\<open>other_methods\<close>, yet the
  result is \<open>[5]\<close>, the sum, where running \<^verbatim>\<open>*\<close> would leave \<open>[6]\<close>.
\<close>

theorem plus_shadowing_counterexample:
  "map_option fst (evaluate 1 Calculator_init '': + * ; 2 3 +'') = Some (Inr [5])
   \<and> other_methods (snd (the (evaluate 1 Calculator_init '': + * ; 2 3 +''))) ''+''
       = Some (UserWord ''*'')
   \<and> map_option fst (evaluate 1 Calculator_init ''2 3 *'') = Some (Inr [6])"
  by code_simp

text \<open>
  Claim C3, amended. A definition \<^verbatim>\<open>: name body\<close> replaces whatever \<^verbatim>\<open>other_methods\<close> held
  under \<open>name\<close>, the built-in stack words included, so \<^verbatim>\<open>: dup 0 ; 5 dup\<close> leaves
  \<open>[5, 0]\<close>. A token that is a key of \<^verbatim>\<open>operations\<close> is handed to
  \<^verbatim>\<open>perform_operation\<close> before \<^verbatim>\<open>other_methods\<close> is looked at, so \<^verbatim>\<open>+\<close> keeps adding after
  \<^verbatim>\<open>: + body\<close>.
\<close>

theorem redefinition_shadows_stack_words_only:
  assumes "name \<noteq> []" and "\<not> list_ex isspace name" and "CHR '':'' \<notin> set name"
    and "body \<noteq> []" and "\<not> isspace (last body)" and "CHR '':'' \<notin> set body"
    and "word \<in> dom operations"
  shows "other_methods (snd (define_words s ['': '' @ name @ '' '' @ body])) name = Some (UserWord body)
       \<and> select_operations n t (word # rest) =
           (case perform_operation word t of
              (Inl e, t1) \<Rightarrow> Some (Inl e, t1)
            | (Inr _, t1) \<Rightarrow> select_operations n t1 rest)
       \<and> map_option fst (evaluate (Suc n) Calculator_init '': dup 0 ; 5 dup'') = Some (Inr [5, 0])
       \<and> map_option fst (evaluate (Suc n) Calculator_init '': + * ; 2 3 +'') = Some (Inr [5])"
proof -
  have reg: "other_methods (snd (define_words s ['': '' @ name @ '' '' @ body])) name = Some (UserWord body)"
    using define_words_registers [OF assms(1-6), of s "[]"] by simp
  have op: "select_operations n t (word # rest) =
      (case perform_operation word t of
         (Inl e, t1) \<Rightarrow> Some (Inl e, t1)
       | (Inr _, t1) \<Rightarrow> select_operations n t1 rest)"
    using assms(7) by (rule select_operations_operator)
  have ex1: "map_option fst (evaluate (Suc n) Calculator_init '': dup 0 ; 5 dup'') = Some (Inr [5, 0])"
    by code_simp
  have ex2: "map_option fst (evaluate (Suc n) Calculator_init '': + * ; 2 3 +'') = Some (Inr [5])"
    by code_simp
  from reg op ex1 ex2 show ?thesis by blast
qed

theorem redefinition_shadows_stack_words_only_witness:
  "other_methods (snd (define_words Calculator_init ['': + *''])) ''+'' = Some (UserWord ''*'')
   \<and> select_operations 0
        \<lparr>stack = \<lparr>items = [2, 3]\<rparr>, other_methods = [''+'' \<mapsto> UserWord ''*'']\<rparr> [''+'']
      = Some (Inr (), \<lparr>stack = \<lparr>items = [5]\<rparr>, other_methods = [''+'' \<mapsto> UserWord ''*'']\<rparr>)"
proof -
  have h: "''+'' \<noteq> []" "\<not> list_ex isspace ''+''" "CHR '':'' \<notin> set ''+''"
    "''*'' \<noteq> []" "\<not> isspace (last ''*'')" "CHR '':'' \<notin> set ''*''"
    "''+'' \<in> dom operations"
    by (simp_all add: text_eval dom_operations)
  have p: "perform_operation ''+'' \<lparr>stack = \<lparr>items = [2, 3]\<rparr>, other_methods = [''+'' \<mapsto> UserWord ''*'']\<rparr>
      = (Inr (), \<lparr>stack = \<lparr>items = [5]\<rparr>, other_methods = [''+'' \<mapsto> UserWord ''*'']\<rparr>)"
    by (simp add: stack_eval)
  show ?thesis
    using redefinition_shadows_stack_words_only [OF h, of Calculator_init 0
        "\<lparr>stack = \<lparr>items = [2, 3]\<rparr>, other_methods = [''+'' \<mapsto> UserWord ''*'']\<rparr>" "[]"] p
    by (simp del: select_operations.simps) simp
qed

section \<open>The definition pass\<close>




section \<open>The word table across calls\<close>

text \<open>
  Claim C9 says that a word defined in one \<^verbatim>\<open>evaluate\<close> call is unknown in a later call on
  the same Calculator. On a new Calculator \<^verbatim>\<open>evaluate("3 double")\<close> fails, the word being
  unknown; after \<^verbatim>\<open>evaluate(": double 2 * ; 5 double")\<close> has returned \<open>[10]\<close>, the same
  call on that Calculator returns \<open>[10, 6]\<close>: \<^verbatim>\<open>double\<close> is still known, and the stack
  has kept its item.
\<close>

theorem word_survives_counterexample:
  "map_option fst (evaluate 1 Calculator_init ''3 double'') = Some (Inl UndefinedOperation)
   \<and> map_option fst (evaluate 1 Calculator_init '': double 2 * ; 5 double'') = Some (Inr [10])
   \<and> map_option fst
        (evaluate 1 (snd (the (evaluate 1 Calculator_init '': double 2 * ; 5 double''))) ''3 double'')
       = Some (Inr [10, 6])"
  by code_simp

text \<open>
  Claim C9, amended. \<^verbatim>\<open>other_methods\<close> belongs to the Calculator and no call takes a key
  out of it: every word known when an \<^verbatim>\<open>evaluate\<close> call starts, and every word its
  definition pass has registered, is a known word when the call ends, by a return or by a
  failure, and when a later call on that Calculator ends. A new Calculator knows exactly
  \<^verbatim>\<open>drop\<close>, \<^verbatim>\<open>swap\<close>, \<^verbatim>\<open>dup\<close> and \<^verbatim>\<open>over\<close>.
\<close>

theorem word_dictionary_persists:
  assumes "evaluate n s first_input = Some (r1, s1)"
    and "evaluate m s1 second_input = Some (r2, s2)"
    and "word \<in> dom (other_methods (snd (define_words s (split_sep (CHR '';'') (lower first_input)))))"
  shows "word \<in> dom (other_methods s1) \<and> word \<in> dom (other_methods s2)
       \<and> dom (other_methods s) \<subseteq> dom (other_methods s1)
       \<and> dom (other_methods Calculator_init) = {''drop'', ''swap'', ''dup'', ''over''}"
proof -
  let ?segs = "split_sep (CHR '';'') (lower first_input)"
  obtain d s0 where dw: "define_words s ?segs = (d, s0)"
    by (cases "define_words s ?segs")
  have g0: "dom (other_methods s0) \<subseteq> dom (other_methods s1)"
  proof (cases d)
    case (Inl e)
    with assms(1) dw have "s1 = s0" by simp
    then show ?thesis by simp
  next
    case (Inr b)
    with assms(1) dw obtain q where "select_operations n s0 (split_ws (last ?segs)) = Some (q, s1)"
      by (auto split: option.splits sum.splits prod.splits)
    then show ?thesis by (rule other_methods_grow(2))
  qed
  have g1: "dom (other_methods s) \<subseteq> dom (other_methods s1)"
    using assms(1) by (rule other_methods_grow(1))
  have g2: "dom (other_methods s1) \<subseteq> dom (other_methods s2)"
    using assms(2) by (rule other_methods_grow(1))
  have w1: "word \<in> dom (other_methods s1)"
    using assms(3) dw g0 by auto
  have w2: "word \<in> dom (other_methods s2)"
    using w1 g2 by auto
  have init: "dom (other_methods Calculator_init) = {''drop'', ''swap'', ''dup'', ''over''}"
    by (auto simp: Calculator_init_def split: if_splits)
  from w1 w2 g1 init show ?thesis by blast
qed

theorem word_dictionary_persists_witness:
  "evaluate 1 Calculator_init '': double 2 * ; 5 double'' =
     Some (Inr [10], \<lparr>stack = \<lparr>items = [10]\<rparr>,
        other_methods = (other_methods Calculator_init)(''double'' \<mapsto> UserWord ''2 *'')\<rparr>)
   \<and> evaluate 1 \<lparr>stack = \<lparr>items = [10]\<rparr>,
        other_methods = (other_methods Calculator_init)(''double'' \<mapsto> UserWord ''2 *'')\<rparr> ''3 double'' =
     Some (Inr [10, 6], \<lparr>stack = \<lparr>items = [10, 6]\<rparr>,
        other_methods = (other_methods Calculator_init)(''double'' \<mapsto> UserWord ''2 *'')\<rparr>)
   \<and> ''double'' \<in> dom (other_methods \<lparr>stack = \<lparr>items = [10, 6]\<rparr>,
        other_methods = (other_methods Calculator_init)(''double'' \<mapsto> UserWord ''2 *'')\<rparr>)"
proof -
  let ?s1 = "\<lparr>stack = \<lparr>items = [10]\<rparr>,
        other_methods = (other_methods Calculator_init)(''double'' \<mapsto> UserWord ''2 *'')\<rparr>"
  let ?s2 = "\<lparr>stack = \<lparr>items = [10, 6]\<rparr>,
        other_methods = (other_methods Calculator_init)(''double'' \<mapsto> UserWord ''2 *'')\<rparr>"
  have e1: "evaluate 1 Calculator_init '': double 2 * ; 5 double'' = Some (Inr [10], ?s1)"
    by (simp add: text_eval stack_eval)
  have e2: "evaluate 1 ?s1 ''3 double'' = Some (Inr [10, 6], ?s2)"
    by (simp add: text_eval stack_eval)
  have d: "''double'' \<in> dom (other_methods (snd (define_words Calculator_init
      (split_sep (CHR '';'') (lower '': double 2 * ; 5 double'')))))"
    by (simp add: text_eval stack_eval)
  from word_dictionary_persists [OF e1 e2 d] e1 e2 show ?thesis
    by (simp del: evaluate.simps)
qed

end
